theory Spec2Isabelle
  imports Complex_Main "HOL-Library.Word"
begin

section \<open>The HEIF loader of tev (src/imageio/HeifImageLoader.cpp)\<close>

text \<open>
  The development embeds \<^verbatim>\<open>HeifImageLoader::canLoadFile\<close> and
  \<^verbatim>\<open>HeifImageLoader::load\<close> with its three local lambdas
  \<^verbatim>\<open>decodeImage\<close>, \<^verbatim>\<open>findAppleMakerNote\<close> and \<^verbatim>\<open>resizeImage\<close>.
  Exceptions are values of a sum type, log lines and calls into collaborators are
  recorded in an event trace, and the libraries the loader calls (libheif, lcms2,
  libexif, OpenEXR, and tev's own helpers that are declared in headers only) are
  either fields of the input the loader reads or fields of an environment record.
\<close>

subsection \<open>Input streams\<close>

text \<open>
  A \<^verbatim>\<open>std::istream\<close> over a seekable buffer (a file or a string, which is what
  tev hands to its loaders): the bytes, the read position, the three state bits and
  the count of the last unformatted read.
\<close>

type_synonym byte = "8 word"

record istream =
  content :: "byte list"
  pos :: nat
  eofbit :: bool
  failbit :: bool
  badbit :: bool
  gcount :: nat

definition good :: "istream \<Rightarrow> bool" where
  "good s = (\<not> eofbit s \<and> \<not> failbit s \<and> \<not> badbit s)"

definition fail :: "istream \<Rightarrow> bool" where
  \<comment> \<open>\<^verbatim>\<open>!stream\<close> is \<^verbatim>\<open>stream.fail()\<close>: failbit or badbit.\<close>
  "fail s = (failbit s \<or> badbit s)"

definition read :: "nat \<Rightarrow> istream \<Rightarrow> byte list \<times> istream" where
  \<comment> \<open>\<^verbatim>\<open>istream::read(buf, n)\<close>: the sentry sets failbit on a stream that is not good
      and nothing is extracted; otherwise up to n bytes are extracted, and running
      into the end of the buffer first sets eofbit and failbit.\<close>
  "read n s =
     (if \<not> good s then ([], s\<lparr>failbit := True, gcount := 0\<rparr>)
      else
        let got = take n (drop (pos s) (content s));
            s1 = s\<lparr>pos := pos s + length got, gcount := length got\<rparr>
        in if length got < n then (got, s1\<lparr>eofbit := True, failbit := True\<rparr>)
           else (got, s1))"

definition clear :: "istream \<Rightarrow> istream" where
  \<comment> \<open>\<^verbatim>\<open>istream::clear()\<close>: the state becomes goodbit.\<close>
  "clear s = s\<lparr>eofbit := False, failbit := False, badbit := False\<rparr>"

definition seekg :: "nat \<Rightarrow> istream \<Rightarrow> istream" where
  \<comment> \<open>\<^verbatim>\<open>istream::seekg(p)\<close>: eofbit is cleared first; a failed stream is left where
      it is; otherwise the buffer is repositioned, and a position beyond the end of
      the buffer sets failbit.\<close>
  "seekg p s =
     (let s1 = s\<lparr>eofbit := False\<rparr>
      in if fail s1 then s1
         else if p \<le> length (content s1) then s1\<lparr>pos := p\<rparr>
         else s1\<lparr>failbit := True\<rparr>)"

datatype heif_filetype_result =
  heif_filetype_no | heif_filetype_yes_supported | heif_filetype_yes_unsupported | heif_filetype_maybe

definition canLoadFile :: "(byte list \<Rightarrow> heif_filetype_result) \<Rightarrow> istream \<Rightarrow> bool \<times> istream" where
  \<comment> \<open>The first argument is libheif's \<^verbatim>\<open>heif_check_filetype\<close> on the 12 header bytes.\<close>
  "canLoadFile heif_check_filetype iStream =
     (let (header, s1) = read 12 iStream;
          failed = (fail s1 \<or> gcount s1 \<noteq> 12);
          s2 = clear s1;
          s3 = seekg 0 s2
      in if failed then (False, s3)
         else (heif_check_filetype header = heif_filetype_yes_supported, s3))"

subsection \<open>Single-precision arithmetic\<close>

text \<open>
  A finite \<^verbatim>\<open>float\<close> is the rational number it denotes. Every arithmetic
  operation of the source on \<^verbatim>\<open>float\<close> operands is the exact operation followed
  by \<open>fl32\<close>, the rounding of IEEE 754 binary32 (24 significant bits, round to
  nearest, ties to even, gradual underflow below \<open>2 powi -126\<close>), each operation
  rounded on its own (no fused multiply-add). Infinities, NaN and overflow are not
  represented: the theorems below stay within the finite range, and a division by
  zero (a plane of 0 bits per sample) is outside the model.
\<close>

type_synonym float = rat

fun bitlength :: "nat \<Rightarrow> nat" where
  "bitlength n = (if n = 0 then 0 else Suc (bitlength (n div 2)))"

declare bitlength.simps [simp del]

definition exponent :: "rat \<Rightarrow> int" where
  \<comment> \<open>The binary exponent \<open>e\<close> of a non-zero \<open>x\<close>: \<open>2 powi e \<le> \<bar>x\<bar> < 2 powi (e + 1)\<close>.\<close>
  "exponent x =
     (if 1 \<le> \<bar>x\<bar> then int (bitlength (nat \<lfloor>\<bar>x\<bar>\<rfloor>)) - 1
      else - int (bitlength (nat (\<lceil>1 / \<bar>x\<bar>\<rceil> - 1))))"

definition roundEven :: "rat \<Rightarrow> int" where
  "roundEven q =
     (let f = \<lfloor>q\<rfloor>; r = q - of_int f
      in if r < 1 / 2 then f
         else if 1 / 2 < r then f + 1
         else if even f then f else f + 1)"

definition fl32 :: "rat \<Rightarrow> float" where
  "fl32 x =
     (if x = 0 then 0
      else let u = 2 powi (max (exponent x) (- 126) - 23)
           in of_int (roundEven (x / u)) * u)"

definition fadd :: "float \<Rightarrow> float \<Rightarrow> float" where
  "fadd a b = fl32 (a + b)"

definition fsub :: "float \<Rightarrow> float \<Rightarrow> float" where
  "fsub a b = fl32 (a - b)"

definition fmul :: "float \<Rightarrow> float \<Rightarrow> float" where
  "fmul a b = fl32 (a * b)"

definition fdiv :: "float \<Rightarrow> float \<Rightarrow> float" where
  "fdiv a b = fl32 (a / b)"

definition float_of_int :: "int \<Rightarrow> float" where
  \<comment> \<open>The conversion \<^verbatim>\<open>(float)i\<close>, also the implicit one of an integer operand.\<close>
  "float_of_int i = fl32 (of_int i)"

subsection \<open>Images and channels\<close>

type_synonym Vector2i = "int \<times> int"

type_synonym M44f = "nat \<Rightarrow> nat \<Rightarrow> float"

record Channel =
  name :: string
  chanSize :: Vector2i
  data :: "float list"

definition identityM44 :: M44f where
  "identityM44 = (\<lambda>m n. if m = n then 1 else 0)"

record ImageData =
  channels :: "Channel list"
  hasPremultipliedAlpha :: bool
  toRec709 :: M44f

definition emptyImageData :: ImageData where
  \<comment> \<open>Modelled from the spec: a default-constructed \<^verbatim>\<open>ImageData\<close> (tev/Image.h is
      not under src/): no channels, not premultiplied, \<^verbatim>\<open>toWorkingSpace\<close> the
      identity ("identity unless primaries differ from the working space").\<close>
  "emptyImageData = \<lparr>channels = [], hasPremultipliedAlpha = False, toRec709 = identityM44\<rparr>"

function to_string :: "nat \<Rightarrow> string" where
  "to_string n =
     (if n < 10 then [char_of (48 + n)]
      else to_string (n div 10) @ [char_of (48 + n mod 10)])"
  by pat_completeness auto
termination
  by (relation "measure id") auto

declare to_string.simps [simp del]

definition channelSuffix :: "nat \<Rightarrow> nat \<Rightarrow> string" where
  "channelSuffix n c =
     (if n \<le> 1 then ''L''
      else if c < 4 then [''R'', ''G'', ''B'', ''A''] ! c
      else to_string c)"

definition makeNChannels :: "nat \<Rightarrow> Vector2i \<Rightarrow> string \<Rightarrow> Channel list" where
  \<comment> \<open>Modelled from the spec: \<^verbatim>\<open>makeNChannels\<close> is declared in tev/Image.h, which
      is not under src/. It yields n channels of the given size ("a name and a dense
      buffer of single-precision floats, length = width x height, row-major"), named
      by the prefix followed by the channel letter.\<close>
  "makeNChannels n sz namePrefix =
     map (\<lambda>c. \<lparr>name = namePrefix @ channelSuffix n c, chanSize = sz,
                data = replicate (nat (fst sz) * nat (snd sz)) 0\<rparr>) [0..<n]"

definition fill :: "Channel list \<Rightarrow> (nat \<Rightarrow> float list) \<Rightarrow> Channel list" where
  \<comment> \<open>Every element of every channel buffer is overwritten: channel c receives \<open>f c\<close>.\<close>
  "fill chs f = map (\<lambda>(c, ch). ch\<lparr>data := f c\<rparr>) (zip [0..<length chs] chs)"

subsection \<open>Outcomes: exceptions and the event trace\<close>

datatype error =
  invalid_argument string
  | null_pointer_dereference
  | out_of_bounds_access

datatype event =
  warning string
  | debug string
  | heif_decode_image_called
  | plane_readonly_called
  | channels_allocated nat Vector2i string
  | scratch_allocated nat
  | applyAppleGainMap_called string

type_synonym 'a outcome = "event list \<times> (error + 'a)"

definition ret :: "'a \<Rightarrow> 'a outcome" where
  "ret x = ([], Inr x)"

definition throw :: "error \<Rightarrow> 'a outcome" where
  "throw e = ([], Inl e)"

definition emit :: "event list \<Rightarrow> unit outcome" where
  "emit evs = (evs, Inr ())"

definition andThen :: "'a outcome \<Rightarrow> ('a \<Rightarrow> 'b outcome) \<Rightarrow> 'b outcome" where
  \<comment> \<open>Sequencing: an exception ends the run, and the trace up to it is kept.\<close>
  "andThen m f =
     (case m of
        (t, Inl e) \<Rightarrow> (t, Inl e)
      | (t, Inr x) \<Rightarrow> (case f x of (t', r) \<Rightarrow> (t @ t', r)))"

subsection \<open>What libheif, lcms2, libexif and OpenEXR report\<close>

datatype heif_error_code = heif_error_Color_profile_does_not_exist | heif_error_Other

record heif_error =
  code :: heif_error_code
  message :: string

record heif_image =
  bits_per_pixel_range :: int
  plane_readonly :: "(nat \<Rightarrow> nat \<Rightarrow> 16 word) option"

record heif_color_profile_nclx =
  color_primaries :: nat
  color_primary_red :: "float \<times> float"
  color_primary_green :: "float \<times> float"
  color_primary_blue :: "float \<times> float"
  color_primary_white :: "float \<times> float"

definition heif_color_primaries_ITU_R_BT_709_5 :: nat where
  "heif_color_primaries_ITU_R_BT_709_5 = 1"

text \<open>
  An image handle answers the queries of \<^verbatim>\<open>decodeImage\<close>. A result that
  libheif returns with an error code other than \<^verbatim>\<open>heif_error_Ok\<close> is \<open>Inl\<close>.
  The plane of a decoded image is read as 16-bit samples: row y, sample x.
\<close>

record heif_image_handle =
  has_alpha_channel :: bool
  is_premultiplied_alpha :: bool
  width :: int
  height :: int
  decode_image :: "heif_error + heif_image"
  raw_color_profile_size :: nat
  raw_color_profile :: "heif_error + byte list"
  nclx_color_profile :: "heif_error + heif_color_profile_nclx"

record metadata_block =
  metadata_size :: nat
  metadata :: "heif_error + byte list"

record auxiliary_image =
  aux_handle :: heif_image_handle
  auxiliary_type :: "heif_error + string option"

record primary_image =
  handle :: heif_image_handle
  exif_blocks :: "metadata_block list"
  auxiliary_images :: "(heif_error + auxiliary_image) list"

record heif_context =
  context_alloc :: bool
  read_from_reader :: "heif_error option"
  primary_image_handle :: "heif_error + primary_image"

datatype ExifEntry = ExifEntry (entry_data: "byte list") (entry_size: nat)

record ExifData =
  maker_note_entry :: "ExifEntry option"

datatype AppleMakerNote = AppleMakerNote "byte list" nat

record Chromaticities =
  red :: "float \<times> float"
  green :: "float \<times> float"
  blue :: "float \<times> float"
  white :: "float \<times> float"

datatype cms_format = TYPE_RGB_FLT | TYPE_RGBA_FLT | TYPE_RGBA_FLT_PREMUL

type_synonym cmsHPROFILE = nat
type_synonym cmsHTRANSFORM = nat

text \<open>
  The collaborators whose code is not in HeifImageLoader.cpp are the fields of an
  environment: every theorem below holds for all of them.
\<close>

record env =
  toLinear :: "float \<Rightarrow> float"
  cmsOpenProfileFromMem :: "byte list \<Rightarrow> cmsHPROFILE option"
  cmsCreateRGBProfile_Rec709 :: "cmsHPROFILE option"
  cmsCreateTransform :: "cmsHPROFILE \<Rightarrow> cms_format \<Rightarrow> cmsHPROFILE \<Rightarrow> cmsHTRANSFORM option"
  cmsDoTransform :: "cmsHTRANSFORM \<Rightarrow> float list \<Rightarrow> nat \<Rightarrow> nat \<Rightarrow> float"
  default_Chromaticities :: Chromaticities
  RGBtoXYZ :: "Chromaticities \<Rightarrow> float \<Rightarrow> M44f"
  XYZtoRGB :: "Chromaticities \<Rightarrow> float \<Rightarrow> M44f"
  M44f_times :: "M44f \<Rightarrow> M44f \<Rightarrow> M44f"
  exif_data_new_from_data :: "byte list \<Rightarrow> ExifData option"
  isAppleMakernote :: "byte list \<Rightarrow> nat \<Rightarrow> bool"
  matchesFuzzy :: "string \<Rightarrow> string \<Rightarrow> bool"
  applyAppleGainMap :: "ImageData \<Rightarrow> ImageData \<Rightarrow> AppleMakerNote \<Rightarrow> ImageData"

subsection \<open>decodeImage\<close>

definition channelScale :: "int \<Rightarrow> float" where
  \<comment> \<open>\<^verbatim>\<open>1.0f / float((1 << bitsPerPixel) - 1)\<close>; the shift is that of a 32-bit
      \<^verbatim>\<open>int\<close>, exact for the depths 0 to 30.\<close>
  "channelScale bitsPerPixel = fdiv 1 (float_of_int (2 ^ nat bitsPerPixel - 1))"

definition normalizeSample :: "float \<Rightarrow> 16 word \<Rightarrow> float" where
  \<comment> \<open>\<^verbatim>\<open>(float)typedData[x] * channelScale\<close>, the bit-depth normalisation of both
      pixel loops.\<close>
  "normalizeSample scale v = fmul (float_of_int (uint v)) scale"

definition getCmsTransform :: "env \<Rightarrow> heif_image_handle \<Rightarrow> nat \<Rightarrow> bool \<Rightarrow> cmsHTRANSFORM option outcome" where
  "getCmsTransform E imgHandle numChannels premultiplied =
     (let profileSize = raw_color_profile_size imgHandle
      in if profileSize = 0 then ret None
         else
           case raw_color_profile imgHandle of
             Inl err \<Rightarrow>
               if code err = heif_error_Color_profile_does_not_exist then ret None
               else andThen (emit [warning (''Failed to read ICC profile: '' @ message err)])
                      (\<lambda>_. ret None)
           | Inr profileData \<Rightarrow>
               (case cmsOpenProfileFromMem E profileData of
                  None \<Rightarrow>
                    andThen (emit [warning ''Failed to create ICC profile from raw data''])
                      (\<lambda>_. ret None)
                | Some srcProfile \<Rightarrow>
                    (case cmsCreateRGBProfile_Rec709 E of
                       None \<Rightarrow>
                         andThen (emit [warning ''Failed to create Rec.709 color profile''])
                           (\<lambda>_. ret None)
                     | Some rec709Profile \<Rightarrow>
                         let type = (if numChannels = 4
                                     then (if premultiplied then TYPE_RGBA_FLT_PREMUL else TYPE_RGBA_FLT)
                                     else TYPE_RGB_FLT)
                         in case cmsCreateTransform E srcProfile type rec709Profile of
                              None \<Rightarrow>
                                andThen
                                  (emit [warning ''Failed to create color transform from ICC profile to Rec.709''])
                                  (\<lambda>_. ret None)
                            | Some transform \<Rightarrow> ret (Some transform))))"

definition iccChannelData ::
  "env \<Rightarrow> cmsHTRANSFORM \<Rightarrow> (nat \<Rightarrow> nat \<Rightarrow> 16 word) \<Rightarrow> float \<Rightarrow> nat \<Rightarrow> nat \<Rightarrow> nat \<Rightarrow> nat \<Rightarrow> float list" where
  \<comment> \<open>Row y is normalised into \<^verbatim>\<open>src\<close> and transformed as a whole; the row of
      RGBA output lands in the interleaved buffer behind the channels, so that
      channel c of pixel x reads output sample \<open>4 * x + c\<close>.\<close>
  "iccChannelData E transform plane scale w h numChannels c =
     concat (map (\<lambda>y.
       let src = map (\<lambda>x. normalizeSample scale (plane y x)) [0..<w * numChannels]
       in map (\<lambda>x. cmsDoTransform E transform src w (4 * x + c)) [0..<w]) [0..<h])"

definition nclxChannelData ::
  "env \<Rightarrow> (nat \<Rightarrow> nat \<Rightarrow> 16 word) \<Rightarrow> float \<Rightarrow> nat \<Rightarrow> nat \<Rightarrow> nat \<Rightarrow> nat \<Rightarrow> float list" where
  "nclxChannelData E plane scale w h numChannels c =
     concat (map (\<lambda>y.
       map (\<lambda>x.
         let baseIdx = x * numChannels
         in if c = 3 then normalizeSample scale (plane y (baseIdx + c))
            else toLinear E (normalizeSample scale (plane y (baseIdx + c)))) [0..<w]) [0..<h])"

definition nclxChromaticities :: "heif_color_profile_nclx \<Rightarrow> Chromaticities" where
  "nclxChromaticities nclx =
     \<lparr>red = color_primary_red nclx, green = color_primary_green nclx,
      blue = color_primary_blue nclx, white = color_primary_white nclx\<rparr>"

definition decodeImage :: "env \<Rightarrow> heif_image_handle \<Rightarrow> Vector2i \<Rightarrow> string \<Rightarrow> ImageData outcome" where
  "decodeImage E imgHandle targetSize namePrefix =
     (let numChannels = (if has_alpha_channel imgHandle then 4 else 3 :: nat);
          premultiplied = (numChannels = 4 \<and> is_premultiplied_alpha imgHandle);
          resultData = emptyImageData\<lparr>hasPremultipliedAlpha := premultiplied\<rparr>;
          sz = (width imgHandle, height imgHandle)
      in if fst sz = 0 \<or> snd sz = 0 then throw (invalid_argument ''Image has zero pixels.'')
         else
           andThen (emit [heif_decode_image_called]) (\<lambda>_.
           case decode_image imgHandle of
             Inl err \<Rightarrow> throw (invalid_argument (''Failed to decode image: '' @ message err))
           | Inr img \<Rightarrow>
               let scale = channelScale (bits_per_pixel_range img)
               in andThen (emit [plane_readonly_called]) (\<lambda>_.
                  case plane_readonly img of
                    None \<Rightarrow> throw (invalid_argument ''Faild to get image data.'')
                  | Some plane \<Rightarrow>
                      andThen (emit [channels_allocated numChannels sz namePrefix]) (\<lambda>_.
                      let resultData = resultData\<lparr>channels := makeNChannels numChannels sz namePrefix\<rparr>;
                          w = nat (fst sz); h = nat (snd sz)
                      in andThen (getCmsTransform E imgHandle numChannels premultiplied) (\<lambda>transform.
                         case transform of
                           Some t \<Rightarrow>
                             andThen
                               (emit [debug ''Found ICC color profile.'',
                                      scratch_allocated (w * h * numChannels),
                                      scratch_allocated (w * h * numChannels)])
                               (\<lambda>_. ret (resultData
                                  \<lparr>channels := fill (channels resultData)
                                       (iccChannelData E t plane scale w h numChannels),
                                   hasPremultipliedAlpha := False\<rparr>))
                         | None \<Rightarrow>
                             let resultData = resultData
                                   \<lparr>channels := fill (channels resultData)
                                        (nclxChannelData E plane scale w h numChannels)\<rparr>
                             in case nclx_color_profile imgHandle of
                                  Inl err \<Rightarrow>
                                    if code err = heif_error_Color_profile_does_not_exist
                                    then ret resultData
                                    else andThen
                                           (emit [warning (''Failed to read NCLX profile: '' @ message err)])
                                           (\<lambda>_. ret resultData)
                                | Inr nclx \<Rightarrow>
                                    andThen (emit [debug ''Found NCLX color profile.'']) (\<lambda>_.
                                    if color_primaries nclx \<noteq> heif_color_primaries_ITU_R_BT_709_5
                                    then
                                      let rec709 = default_Chromaticities E;
                                          chroma = nclxChromaticities nclx;
                                          M = M44f_times E (RGBtoXYZ E chroma 1) (XYZtoRGB E rec709 1)
                                      in ret (resultData
                                           \<lparr>toRec709 := (\<lambda>m n. if m < 4 \<and> n < 4 then M m n
                                                                else toRec709 resultData m n)\<rparr>)
                                    else ret resultData))))))"

subsection \<open>findAppleMakerNote\<close>

fun findAppleMakerNote_blocks :: "env \<Rightarrow> metadata_block list \<Rightarrow> AppleMakerNote option outcome" where
  \<comment> \<open>The loop over the EXIF blocks. \<^verbatim>\<open>exif_data_get_entry\<close> yields a null entry when
      the block has no maker note, and the source reads \<^verbatim>\<open>makerNote->data\<close> without a
      test.\<close>
  "findAppleMakerNote_blocks E [] = ret None"
| "findAppleMakerNote_blocks E (b # bs) =
     (let exifSize = metadata_size b
      in if exifSize \<le> 4
         then andThen (emit [warning ''Failed to get size of EXIF data''])
                (\<lambda>_. findAppleMakerNote_blocks E bs)
         else
           case metadata b of
             Inl err \<Rightarrow>
               andThen (emit [warning (''Failed to read EXIF data: '' @ message err)])
                 (\<lambda>_. findAppleMakerNote_blocks E bs)
           | Inr exifData \<Rightarrow>
               (case exif_data_new_from_data E (drop 4 exifData) of
                  None \<Rightarrow>
                    andThen (emit [warning ''Failed to decode EXIF data''])
                      (\<lambda>_. findAppleMakerNote_blocks E bs)
                | Some exif \<Rightarrow>
                    (case maker_note_entry exif of
                       None \<Rightarrow> throw null_pointer_dereference
                     | Some makerNote \<Rightarrow>
                         if \<not> isAppleMakernote E (entry_data makerNote) (entry_size makerNote)
                         then findAppleMakerNote_blocks E bs
                         else ret (Some (AppleMakerNote (entry_data makerNote) (entry_size makerNote))))))"

definition findAppleMakerNote :: "env \<Rightarrow> primary_image \<Rightarrow> AppleMakerNote option outcome" where
  "findAppleMakerNote E primary =
     (let numMetadataBlocks = length (exif_blocks primary)
      in if numMetadataBlocks = 0
         then andThen (emit [warning ''No EXIF metadata found'']) (\<lambda>_. ret None)
         else
           andThen
             (emit (if numMetadataBlocks > 1
                    then [debug (''Found '' @ to_string numMetadataBlocks @ '' EXIF metadata block(s)'')]
                    else []))
             (\<lambda>_. findAppleMakerNote_blocks E (exif_blocks primary)))"

subsection \<open>resizeImage\<close>

definition at_index :: "Channel \<Rightarrow> int \<Rightarrow> float option" where
  \<comment> \<open>\<^verbatim>\<open>Channel::at\<close>: an index outside the buffer has no value.\<close>
  "at_index ch i = (if 0 \<le> i \<and> nat i < length (data ch) then Some (data ch ! nat i) else None)"

definition sourceCoordinate :: "int \<Rightarrow> int \<Rightarrow> int \<Rightarrow> float" where
  \<comment> \<open>\<^verbatim>\<open>(dst + 0.5f) * scale - 0.5f\<close> with \<^verbatim>\<open>scale = (float)size / targetSize\<close>.\<close>
  "sourceCoordinate srcSize dstSize dst =
     (let scale = fdiv (float_of_int srcSize) (float_of_int dstSize)
      in fsub (fmul (fadd (float_of_int dst) (1 / 2)) scale) (1 / 2))"

definition interpolate :: "Channel \<Rightarrow> Vector2i \<Rightarrow> Vector2i \<Rightarrow> int \<Rightarrow> int \<Rightarrow> float option" where
  \<comment> \<open>The body of the pixel loop for one source channel and one destination pixel.\<close>
  "interpolate srcChannel sz targetSize dstX dstY =
     (let srcX = sourceCoordinate (fst sz) (fst targetSize) dstX;
          srcY = sourceCoordinate (snd sz) (snd targetSize) dstY;
          x0 = max \<lfloor>srcX\<rfloor> 0;
          y0 = max \<lfloor>srcY\<rfloor> 0;
          x1 = min (x0 + 1) (fst sz - 1);
          y1 = min (y0 + 1) (snd sz - 1);
          wx1 = fsub srcX (float_of_int x0);
          wy1 = fsub srcY (float_of_int y0);
          wx0 = fsub 1 wx1;
          wy0 = fsub 1 wy1
      in case (at_index srcChannel (y0 * fst sz + x0), at_index srcChannel (y0 * fst sz + x1),
               at_index srcChannel (y1 * fst sz + x0), at_index srcChannel (y1 * fst sz + x1)) of
           (Some p00, Some p01, Some p10, Some p11) \<Rightarrow>
             Some (fadd (fmul wy0 (fadd (fmul wx0 p00) (fmul wx1 p01)))
                        (fmul wy1 (fadd (fmul wx0 p10) (fmul wx1 p11))))
         | _ \<Rightarrow> None)"

definition resampleChannel :: "Channel \<Rightarrow> Vector2i \<Rightarrow> Vector2i \<Rightarrow> float list option" where
  \<comment> \<open>All destination pixels of one channel, row by row.\<close>
  "resampleChannel srcChannel sz targetSize =
     those (concat (map (\<lambda>dstY.
       map (\<lambda>dstX. interpolate srcChannel sz targetSize (int dstX) (int dstY))
         [0..<nat (fst targetSize)]) [0..<nat (snd targetSize)]))"

definition resizeImage :: "ImageData \<Rightarrow> Vector2i \<Rightarrow> string \<Rightarrow> ImageData outcome" where
  "resizeImage resultData targetSize namePrefix =
     (case channels resultData of
        [] \<Rightarrow> throw out_of_bounds_access
      | front # _ \<Rightarrow>
          let sz = chanSize front
          in if sz = targetSize then ret resultData
             else
               let numChannels = length (channels resultData)
               in andThen (emit [channels_allocated numChannels targetSize namePrefix]) (\<lambda>_.
                  let scaledResultData = emptyImageData
                        \<lparr>hasPremultipliedAlpha := hasPremultipliedAlpha resultData,
                         channels := makeNChannels numChannels targetSize namePrefix\<rparr>
                  in case those (map (\<lambda>src. resampleChannel src sz targetSize) (channels resultData)) of
                       None \<Rightarrow> throw out_of_bounds_access
                     | Some pixels \<Rightarrow>
                         ret (scaledResultData
                           \<lparr>channels := fill (channels scaledResultData) (\<lambda>c. pixels ! c)\<rparr>)))"

subsection \<open>load\<close>

fun starts_with :: "string \<Rightarrow> string \<Rightarrow> bool" where
  "starts_with s [] = True"
| "starts_with [] (c # cs) = False"
| "starts_with (x # xs) (c # cs) = (x = c \<and> starts_with xs cs)"

fun find_str :: "string \<Rightarrow> string \<Rightarrow> bool" where
  \<comment> \<open>\<^verbatim>\<open>s.find(t) != string::npos\<close>\<close>
  "find_str [] t = (t = [])"
| "find_str (x # xs) t = (starts_with (x # xs) t \<or> find_str xs t)"

definition auxLayerName :: "nat \<Rightarrow> string option \<Rightarrow> string" where
  \<comment> \<open>The type tag (or the number of auxiliary images when the tag is null), a
      period appended and every colon replaced by a period.\<close>
  "auxLayerName num_aux auxType =
     map (\<lambda>c. if c = CHR '':'' then CHR ''.'' else c)
       ((case auxType of Some t \<Rightarrow> t | None \<Rightarrow> to_string num_aux) @ ''.'')"

definition frontSize :: "ImageData \<Rightarrow> Vector2i outcome" where
  \<comment> \<open>\<^verbatim>\<open>mainImage.channels.front().size()\<close>\<close>
  "frontSize img = (case channels img of [] \<Rightarrow> throw out_of_bounds_access | front # _ \<Rightarrow> ret (chanSize front))"

definition loadAuxiliary ::
  "env \<Rightarrow> primary_image \<Rightarrow> string \<Rightarrow> nat \<Rightarrow> ImageData \<Rightarrow> heif_error + auxiliary_image \<Rightarrow> ImageData outcome" where
  \<comment> \<open>One iteration of the loop over the auxiliary images; the state is the main image.\<close>
  "loadAuxiliary E primary channelSelector num_aux mainImage aux =
     (case aux of
        Inl err \<Rightarrow>
          andThen (emit [warning (''Failed to get auxiliary image handle: '' @ message err)])
            (\<lambda>_. ret mainImage)
      | Inr auxImgHandle \<Rightarrow>
          (case auxiliary_type auxImgHandle of
             Inl err \<Rightarrow>
               andThen (emit [warning (''Failed to get auxiliary image type: '' @ message err)])
                 (\<lambda>_. ret mainImage)
           | Inr auxType \<Rightarrow>
               let layerName = auxLayerName num_aux auxType
               in if \<not> matchesFuzzy E layerName channelSelector then ret mainImage
                  else
                    andThen (frontSize mainImage) (\<lambda>targetSize.
                    andThen (decodeImage E (aux_handle auxImgHandle) targetSize layerName) (\<lambda>auxImgData.
                    andThen (resizeImage auxImgData targetSize layerName) (\<lambda>auxImgData.
                    let mainImage = mainImage\<lparr>channels := channels mainImage @ channels auxImgData\<rparr>
                    in if find_str layerName ''apple'' \<and> find_str layerName ''hdrgainmap''
                       then
                         andThen (emit [debug (''Found hdrgainmap: '' @ layerName)]) (\<lambda>_.
                         andThen (findAppleMakerNote E primary) (\<lambda>amn.
                         case amn of
                           Some note \<Rightarrow>
                             andThen
                               (emit [debug ''Found Apple maker note; applying gain map.'',
                                      applyAppleGainMap_called layerName])
                               (\<lambda>_. ret (applyAppleGainMap E mainImage auxImgData note))
                         | None \<Rightarrow> ret mainImage))
                       else ret mainImage)))))"

fun loadAuxiliaries ::
  "env \<Rightarrow> primary_image \<Rightarrow> string \<Rightarrow> nat \<Rightarrow> ImageData \<Rightarrow> (heif_error + auxiliary_image) list \<Rightarrow> ImageData outcome" where
  "loadAuxiliaries E primary channelSelector num_aux mainImage [] = ret mainImage"
| "loadAuxiliaries E primary channelSelector num_aux mainImage (aux # rest) =
     andThen (loadAuxiliary E primary channelSelector num_aux mainImage aux)
       (\<lambda>mainImage. loadAuxiliaries E primary channelSelector num_aux mainImage rest)"

definition load :: "env \<Rightarrow> heif_context \<Rightarrow> string \<Rightarrow> ImageData list outcome" where
  \<comment> \<open>From the allocation of the libheif context on; what the reader callbacks
      deliver is the \<open>heif_context\<close> given.\<close>
  "load E ctx channelSelector =
     (if \<not> context_alloc ctx then throw (invalid_argument ''Failed to allocate libheif context.'')
      else
        case read_from_reader ctx of
          Some err \<Rightarrow> throw (invalid_argument (''Failed to read image: '' @ message err))
        | None \<Rightarrow>
            (case primary_image_handle ctx of
               Inl err \<Rightarrow>
                 throw (invalid_argument (''Failed to get primary image handle: '' @ message err))
             | Inr primary \<Rightarrow>
                 andThen (decodeImage E (handle primary) (0, 0) []) (\<lambda>mainImage.
                 let num_aux = length (auxiliary_images primary)
                 in andThen
                      (if num_aux > 0
                       then andThen
                              (emit [debug (''Found '' @ to_string num_aux @ '' auxiliary image(s)'')])
                              (\<lambda>_. loadAuxiliaries E primary channelSelector num_aux mainImage
                                      (auxiliary_images primary))
                       else ret mainImage)
                      (\<lambda>mainImage. ret [mainImage]))))"

subsection \<open>Vocabulary of the statements\<close>

definition layerNameOf :: "nat \<Rightarrow> heif_error + auxiliary_image \<Rightarrow> string option" where
  \<comment> \<open>The normalised name of an auxiliary image whose handle and type were obtained.\<close>
  "layerNameOf num_aux aux =
     (case aux of
        Inl _ \<Rightarrow> None
      | Inr a \<Rightarrow> (case auxiliary_type a of Inl _ \<Rightarrow> None | Inr t \<Rightarrow> Some (auxLayerName num_aux t)))"

definition frontSizeOr :: "ImageData \<Rightarrow> Vector2i" where
  "frontSizeOr img = (case channels img of [] \<Rightarrow> (0, 0) | front # _ \<Rightarrow> chanSize front)"

definition auxChannels :: "env \<Rightarrow> Vector2i \<Rightarrow> string \<Rightarrow> nat \<Rightarrow> heif_error + auxiliary_image \<Rightarrow> Channel list" where
  \<comment> \<open>The channels an auxiliary image contributes: those of its decoded image,
      resampled to the target size, when its name matches the selector; none
      otherwise.\<close>
  "auxChannels E targetSize channelSelector num_aux aux =
     (case aux of
        Inl _ \<Rightarrow> []
      | Inr a \<Rightarrow>
          (case layerNameOf num_aux aux of
             None \<Rightarrow> []
           | Some layerName \<Rightarrow>
               if \<not> matchesFuzzy E layerName channelSelector then []
               else
                 case snd (andThen (decodeImage E (aux_handle a) targetSize layerName)
                             (\<lambda>auxImgData. resizeImage auxImgData targetSize layerName)) of
                   Inl _ \<Rightarrow> []
                 | Inr auxImgData \<Rightarrow> channels auxImgData))"

definition takesIccPath :: "env \<Rightarrow> heif_image_handle \<Rightarrow> bool" where
  \<comment> \<open>\<^verbatim>\<open>getCmsTransform\<close> yields a transform for the handle, called as decodeImage
      calls it.\<close>
  "takesIccPath E imgHandle =
     (let numChannels = (if has_alpha_channel imgHandle then 4 else 3 :: nat);
          premultiplied = (numChannels = 4 \<and> is_premultiplied_alpha imgHandle)
      in case snd (getCmsTransform E imgHandle numChannels premultiplied) of
           Inr (Some _) \<Rightarrow> True
         | _ \<Rightarrow> False)"

subsection \<open>Concrete inputs\<close>

definition rampChannel :: Channel where
  "rampChannel = \<lparr>name = ''gain.L'', chanSize = (2, 1), data = [0, 1]\<rparr>"

definition rampImage :: ImageData where
  "rampImage = emptyImageData\<lparr>channels := [rampChannel]\<rparr>"

definition matchesFuzzy_substring :: "string \<Rightarrow> string \<Rightarrow> bool" where
  \<comment> \<open>Modelled from the spec: \<^verbatim>\<open>matchesFuzzy\<close> is declared in tev/Common.h, which is
      not under src/. "Selector syntax for auxiliary-layer matching: case-sensitive
      fuzzy/substring match against a colon-stripped, period-terminated layer name":
      a selector matches the layer names it is a substring of.\<close>
  "matchesFuzzy_substring text selector = find_str text selector"

definition substringEnv :: env where
  \<comment> \<open>An environment for evaluation: the colour engine accepts every profile and
      transforms every sample to 0, every EXIF blob decodes, with a maker note
      (recognised as Apple's) exactly when its first byte is not 0, a selector
      matches the layer names it is a substring of, and fusion leaves the main
      image as it is.\<close>
  "substringEnv =
     \<lparr>toLinear = (\<lambda>x. x),
      cmsOpenProfileFromMem = (\<lambda>_. Some 1),
      cmsCreateRGBProfile_Rec709 = Some 2,
      cmsCreateTransform = (\<lambda>_ _ _. Some 3),
      cmsDoTransform = (\<lambda>_ _ _ _. 0),
      default_Chromaticities =
        \<lparr>red = (0, 0), green = (0, 0), blue = (0, 0), white = (0, 0)\<rparr>,
      RGBtoXYZ = (\<lambda>_ _. identityM44),
      XYZtoRGB = (\<lambda>_ _. identityM44),
      M44f_times = (\<lambda>a _. a),
      exif_data_new_from_data =
        (\<lambda>bs. Some \<lparr>maker_note_entry =
                     (if take 1 bs = [0] then None else Some (ExifEntry bs (length bs)))\<rparr>),
      isAppleMakernote = (\<lambda>_ _. True),
      matchesFuzzy = matchesFuzzy_substring,
      applyAppleGainMap = (\<lambda>mainImage _ _. mainImage)\<rparr>"

definition whitePlane :: heif_image where
  "whitePlane = \<lparr>bits_per_pixel_range = 8, plane_readonly = Some (\<lambda>_ _. 255)\<rparr>"

definition noProfile :: heif_error where
  "noProfile = \<lparr>code = heif_error_Color_profile_does_not_exist, message = ''no profile''\<rparr>"

definition pixelHandle :: heif_image_handle where
  \<comment> \<open>A 1 x 1 opaque white pixel of 8 bits per sample with no colour profile.\<close>
  "pixelHandle =
     \<lparr>has_alpha_channel = False, is_premultiplied_alpha = False, width = 1, height = 1,
      decode_image = Inr whitePlane, raw_color_profile_size = 0,
      raw_color_profile = Inl noProfile, nclx_color_profile = Inl noProfile\<rparr>"

definition premultipliedIccHandle :: heif_image_handle where
  \<comment> \<open>A 1 x 1 pixel with premultiplied alpha and an embedded ICC profile.\<close>
  "premultipliedIccHandle =
     pixelHandle\<lparr>has_alpha_channel := True, is_premultiplied_alpha := True,
       raw_color_profile_size := 4, raw_color_profile := Inr [1, 2, 3, 4]\<rparr>"

definition whitePixel :: "string \<Rightarrow> ImageData" where
  "whitePixel namePrefix =
     \<lparr>channels = map (\<lambda>c. \<lparr>name = namePrefix @ c, chanSize = (1, 1), data = [1]\<rparr>) [''R'', ''G'', ''B''],
      hasPremultipliedAlpha = False, toRec709 = identityM44\<rparr>"

definition transformedPixel :: "string \<Rightarrow> ImageData" where
  "transformedPixel namePrefix =
     \<lparr>channels = map (\<lambda>c. \<lparr>name = namePrefix @ c, chanSize = (1, 1), data = [0]\<rparr>)
                   [''R'', ''G'', ''B'', ''A''],
      hasPremultipliedAlpha = False, toRec709 = identityM44\<rparr>"

definition gainMapAux :: auxiliary_image where
  "gainMapAux =
     \<lparr>aux_handle = pixelHandle,
      auxiliary_type = Inr (Some ''urn:com:apple:photo:2020:aux:hdrgainmap'')\<rparr>"

definition corruptAux :: auxiliary_image where
  \<comment> \<open>A depth layer whose pixel data libheif cannot decode.\<close>
  "corruptAux =
     \<lparr>aux_handle = pixelHandle\<lparr>decode_image := Inl \<lparr>code = heif_error_Other, message = ''corrupt''\<rparr>\<rparr>,
      auxiliary_type = Inr (Some ''depth'')\<rparr>"

definition exifWithMakerNote :: metadata_block where
  "exifWithMakerNote = \<lparr>metadata_size = 6, metadata = Inr [0, 0, 0, 0, 1, 2]\<rparr>"

definition exifWithoutMakerNote :: metadata_block where
  "exifWithoutMakerNote = \<lparr>metadata_size = 6, metadata = Inr [0, 0, 0, 0, 0, 0]\<rparr>"

definition heifFile :: "metadata_block list \<Rightarrow> (heif_error + auxiliary_image) list \<Rightarrow> heif_context" where
  \<comment> \<open>A readable container: the white pixel as primary image, with the given EXIF
      blocks and auxiliary images.\<close>
  "heifFile blocks auxes =
     \<lparr>context_alloc = True, read_from_reader = None,
      primary_image_handle =
        Inr \<lparr>handle = pixelHandle, exif_blocks = blocks, auxiliary_images = auxes\<rparr>\<rparr>"

section \<open>Properties\<close>

subsection \<open>The rounding function\<close>

lemma bitlength_bounds:
  "0 < n \<Longrightarrow> 2 ^ (bitlength n - 1) \<le> n \<and> n < 2 ^ bitlength n"
proof (induction n rule: bitlength.induct)
  case (1 n)
  show ?case
  proof (cases "n div 2 = 0")
    case True
    with 1(2) have "n = 1" by presburger
    then show ?thesis by (simp add: bitlength.simps)
  next
    case False
    then have ih: "2 ^ (bitlength (n div 2) - 1) \<le> n div 2" "n div 2 < 2 ^ bitlength (n div 2)"
      using 1 by auto
    have pos: "0 < bitlength (n div 2)"
      using False by (subst bitlength.simps) simp
    have eq: "bitlength n = Suc (bitlength (n div 2))"
      using 1(2) by (subst bitlength.simps) simp
    have "2 ^ (bitlength n - 1) = 2 * 2 ^ (bitlength (n div 2) - 1)"
      using pos eq by (cases "bitlength (n div 2)") simp_all
    also have "\<dots> \<le> 2 * (n div 2)" using ih(1) by simp
    also have "\<dots> \<le> n" by simp
    finally have lo: "2 ^ (bitlength n - 1) \<le> n" .
    have "n < 2 * (n div 2) + 2" by presburger
    also have "\<dots> \<le> 2 * 2 ^ bitlength (n div 2)" using ih(2) by simp
    finally have "n < 2 ^ bitlength n" using eq by simp
    with lo show ?thesis by simp
  qed
qed

lemma pow2_not_le_zero: "\<not> (2::rat) powi e \<le> 0"
  by (simp add: not_le)

lemma exponent_bounds:
  assumes "x \<noteq> 0"
  shows "2 powi exponent x \<le> \<bar>x\<bar> \<and> \<bar>x\<bar> < 2 powi (exponent x + 1)"
proof (cases "1 \<le> \<bar>x\<bar>")
  case True
  define n where "n = nat \<lfloor>\<bar>x\<bar>\<rfloor>"
  have n: "0 < n" "rat_of_nat n \<le> \<bar>x\<bar>" "\<bar>x\<bar> < rat_of_nat n + 1"
    using True unfolding n_def by (simp_all add: floor_less_iff) linarith+
  have e: "exponent x = int (bitlength n) - 1" using True by (simp add: exponent_def n_def)
  have bl: "0 < bitlength n" using n(1) by (subst bitlength.simps) simp
  from bitlength_bounds[OF n(1)] have b: "2 ^ (bitlength n - 1) \<le> n" "n + 1 \<le> 2 ^ bitlength n" by auto
  have "(2::rat) powi (int (bitlength n) - 1) = 2 ^ (bitlength n - 1)"
    using bl by (metis One_nat_def Suc_leI of_nat_1 of_nat_diff power_int_of_nat)
  also have "\<dots> = rat_of_nat (2 ^ (bitlength n - 1))" by simp
  also have "\<dots> \<le> rat_of_nat n" using b(1) by (simp only: of_nat_le_iff)
  finally have lo: "2 powi exponent x \<le> \<bar>x\<bar>" using n(2) e by simp
  have "rat_of_nat n + 1 = rat_of_nat (n + 1)" by simp
  also have "\<dots> \<le> rat_of_nat (2 ^ bitlength n)" using b(2) by (simp only: of_nat_le_iff)
  also have "\<dots> = 2 powi (exponent x + 1)" using e by simp
  finally show ?thesis using lo n(3) by simp
next
  case False
  define y where "y = 1 / \<bar>x\<bar>"
  have y: "1 < y" "0 < \<bar>x\<bar>" using False assms by (simp_all add: y_def)
  define m where "m = nat (\<lceil>y\<rceil> - 1)"
  have m: "0 < m" "rat_of_nat m < y" "y \<le> rat_of_nat m + 1"
    using y(1) unfolding m_def by (simp_all add: less_ceiling_iff) linarith+
  have e: "exponent x = - int (bitlength m)" using False by (simp add: exponent_def m_def y_def)
  have bl: "0 < bitlength m" using m(1) by (subst bitlength.simps) simp
  from bitlength_bounds[OF m(1)] have b: "2 ^ (bitlength m - 1) \<le> m" "m + 1 \<le> 2 ^ bitlength m" by auto
  from of_nat_mono[OF b(1), where 'a = rat]
  have "(2::rat) ^ (bitlength m - 1) \<le> rat_of_nat m" by simp
  then have ylo: "2 ^ (bitlength m - 1) < y" using m(2) by linarith
  from of_nat_mono[OF b(2), where 'a = rat]
  have "rat_of_nat m + 1 \<le> 2 ^ bitlength m" by simp
  then have yhi: "y \<le> 2 ^ bitlength m" using m(3) by linarith
  have x: "\<bar>x\<bar> = 1 / y" using y(2) by (simp add: y_def)
  have "(2::rat) powi exponent x = 1 / 2 ^ bitlength m" using e by (simp add: power_int_minus_divide)
  also have "\<dots> \<le> 1 / y" using yhi y(1) by (simp add: frac_le)
  finally have lo: "2 powi exponent x \<le> \<bar>x\<bar>" using x by simp
  have "exponent x + 1 = - int (bitlength m - 1)" using e bl by simp
  then have "(2::rat) powi (exponent x + 1) = 1 / 2 ^ (bitlength m - 1)"
    by (simp add: power_int_minus_divide)
  moreover have "1 / y < 1 / 2 ^ (bitlength m - 1)" using ylo by (simp add: frac_less2)
  ultimately show ?thesis using lo x by simp
qed

lemma exponent_unique:
  assumes "2 powi e \<le> \<bar>x\<bar>" "\<bar>x\<bar> < 2 powi (e + 1)"
  shows "exponent x = e"
proof -
  have nz: "x \<noteq> 0" using assms(1) pow2_not_le_zero[of e] by (cases "x = 0") simp_all
  note b = exponent_bounds[OF nz]
  have "\<not> exponent x < e"
  proof
    assume "exponent x < e"
    then have "(2::rat) powi (exponent x + 1) \<le> 2 powi e" by (intro power_int_increasing) auto
    with b assms show False by linarith
  qed
  moreover have "\<not> e < exponent x"
  proof
    assume "e < exponent x"
    then have "(2::rat) powi (e + 1) \<le> 2 powi exponent x" by (intro power_int_increasing) auto
    with b assms show False by linarith
  qed
  ultimately show ?thesis by simp
qed

lemma fl32_eqI:
  assumes "2 powi e \<le> \<bar>x\<bar>" "\<bar>x\<bar> < 2 powi (e + 1)" "- 126 \<le> e"
    and "roundEven (x / 2 powi (e - 23)) = m" "of_int m * 2 powi (e - 23) = y"
  shows "fl32 x = y"
proof -
  have nz: "x \<noteq> 0" using assms(1) pow2_not_le_zero[of e] by (cases "x = 0") simp_all
  show ?thesis
    using exponent_unique[OF assms(1,2)] assms(3-) nz by (simp add: fl32_def max_def Let_def)
qed

lemma roundEven_of_int: "roundEven (of_int k) = k"
  by (simp add: roundEven_def)

lemma fl32_representable:
  assumes "\<bar>k\<bar> < 2 ^ 24" "- 149 \<le> j"
  shows "fl32 (of_int k * 2 powi j) = of_int k * 2 powi j"
proof (cases "k = 0")
  case True
  then show ?thesis by (simp add: fl32_def)
next
  case False
  define x :: rat where "x = of_int k * 2 powi j"
  have nz: "x \<noteq> 0" using False by (simp add: x_def)
  define e where "e = max (exponent x) (- 126)"
  have "e - 23 \<le> j"
  proof (cases "exponent x \<le> - 126")
    case True
    then show ?thesis using assms(2) by (simp add: e_def)
  next
    case False
    have "\<bar>x\<bar> = of_int \<bar>k\<bar> * 2 powi j" by (simp add: x_def abs_mult)
    also have "\<dots> < 2 ^ 24 * 2 powi j"
    proof -
      have "rat_of_int \<bar>k\<bar> < rat_of_int (2 ^ 24)" using assms(1) by (simp only: of_int_less_iff)
      then show ?thesis by simp
    qed
    also have "\<dots> = 2 powi (24 + j)" by (simp add: power_int_add)
    finally have "2 powi exponent x < (2::rat) powi (24 + j)"
      using exponent_bounds[OF nz] by linarith
    moreover have "(2::rat) powi (24 + j) \<le> 2 powi exponent x" if "24 + j \<le> exponent x"
      using that by (intro power_int_increasing) auto
    ultimately have "exponent x < 24 + j" by fastforce
    with False show ?thesis by (simp add: e_def)
  qed
  then obtain d :: nat where d: "j = e - 23 + int d"
    by (metis add.commute diff_add_cancel zero_le_imp_eq_int diff_ge_0_iff_ge)
  have "x / 2 powi (e - 23) = of_int k * (2 powi (e - 23 + int d) / 2 powi (e - 23))"
    by (simp add: x_def d)
  also have "(2::rat) powi (e - 23 + int d) / 2 powi (e - 23) = 2 ^ d"
    by (simp add: power_int_add)
  finally have q: "x / 2 powi (e - 23) = of_int (k * 2 ^ d)" by simp
  have "fl32 x = of_int (roundEven (x / 2 powi (e - 23))) * 2 powi (e - 23)"
    using nz by (simp add: fl32_def e_def Let_def)
  also have "\<dots> = of_int k * (2 ^ d * 2 powi (e - 23))"
    by (simp only: q roundEven_of_int) simp
  also have "2 ^ d * (2::rat) powi (e - 23) = 2 powi j"
    by (simp add: d power_int_add)
  finally show ?thesis by (simp add: x_def)
qed

lemma fl32_of_int: "\<bar>k\<bar> < 2 ^ 24 \<Longrightarrow> fl32 (of_int k) = of_int k"
  using fl32_representable[of k 0] by simp

lemma fl32_numeral: "numeral k < (16777216::int) \<Longrightarrow> fl32 (numeral k) = numeral k"
  using fl32_of_int[of "numeral k"] by simp


lemma fl32_one: "fl32 1 = 1"
  using fl32_of_int[of 1] by simp



lemma floor_rat_numeral_div:
  "\<lfloor>(numeral a :: rat) / numeral b\<rfloor> = numeral a div numeral b"
  by (metis floor_divide_of_int_eq of_int_numeral)

lemma floor_rat_neg_numeral_div:
  "\<lfloor>- (numeral a :: rat) / numeral b\<rfloor> = - numeral a div numeral b"
  by (metis floor_divide_of_int_eq of_int_numeral of_int_minus)

subsection \<open>Bit-depth normalisation\<close>

text \<open>
  The binary32 reciprocals of \<open>2 ^ B - 1\<close> for the depths 2 to 16, and the
  binary32 products of each with \<open>2 ^ B - 1\<close>.
\<close>

lemma reciprocal_values:
  "fl32 (1 / 3) = 11184811 / 33554432"
  "fl32 (1 / 7) = 9586981 / 67108864"
  "fl32 (1 / 15) = 8947849 / 134217728"
  "fl32 (1 / 31) = 1082401 / 33554432"
  "fl32 (1 / 63) = 8521761 / 536870912"
  "fl32 (1 / 127) = 2113665 / 268435456"
  "fl32 (1 / 255) = 8421505 / 2147483648"
  "fl32 (1 / 511) = 262657 / 134217728"
  "fl32 (1 / 1023) = 1049601 / 1073741824"
  "fl32 (1 / 2047) = 4196353 / 8589934592"
  "fl32 (1 / 4095) = 8390657 / 34359738368"
  "fl32 (1 / 8191) = 8193 / 67108864"
  "fl32 (1 / 16383) = 16385 / 268435456"
  "fl32 (1 / 32767) = 32769 / 1073741824"
  "fl32 (1 / 65535) = 65537 / 4294967296"
proof -
  show "fl32 (1 / 3) = 11184811 / 33554432"
    by (rule fl32_eqI[where e = "- 2" and m = 11184811]) (simp_all add: roundEven_def Let_def floor_rat_numeral_div)
  show "fl32 (1 / 7) = 9586981 / 67108864"
    by (rule fl32_eqI[where e = "- 3" and m = 9586981]) (simp_all add: roundEven_def Let_def floor_rat_numeral_div)
  show "fl32 (1 / 15) = 8947849 / 134217728"
    by (rule fl32_eqI[where e = "- 4" and m = 8947849]) (simp_all add: roundEven_def Let_def floor_rat_numeral_div)
  show "fl32 (1 / 31) = 1082401 / 33554432"
    by (rule fl32_eqI[where e = "- 5" and m = 8659208]) (simp_all add: roundEven_def Let_def floor_rat_numeral_div)
  show "fl32 (1 / 63) = 8521761 / 536870912"
    by (rule fl32_eqI[where e = "- 6" and m = 8521761]) (simp_all add: roundEven_def Let_def floor_rat_numeral_div)
  show "fl32 (1 / 127) = 2113665 / 268435456"
    by (rule fl32_eqI[where e = "- 7" and m = 8454660]) (simp_all add: roundEven_def Let_def floor_rat_numeral_div)
  show "fl32 (1 / 255) = 8421505 / 2147483648"
    by (rule fl32_eqI[where e = "- 8" and m = 8421505]) (simp_all add: roundEven_def Let_def floor_rat_numeral_div)
  show "fl32 (1 / 511) = 262657 / 134217728"
    by (rule fl32_eqI[where e = "- 9" and m = 8405024]) (simp_all add: roundEven_def Let_def floor_rat_numeral_div)
  show "fl32 (1 / 1023) = 1049601 / 1073741824"
    by (rule fl32_eqI[where e = "- 10" and m = 8396808]) (simp_all add: roundEven_def Let_def floor_rat_numeral_div)
  show "fl32 (1 / 2047) = 4196353 / 8589934592"
    by (rule fl32_eqI[where e = "- 11" and m = 8392706]) (simp_all add: roundEven_def Let_def floor_rat_numeral_div)
  show "fl32 (1 / 4095) = 8390657 / 34359738368"
    by (rule fl32_eqI[where e = "- 12" and m = 8390657]) (simp_all add: roundEven_def Let_def floor_rat_numeral_div)
  show "fl32 (1 / 8191) = 8193 / 67108864"
    by (rule fl32_eqI[where e = "- 13" and m = 8389632]) (simp_all add: roundEven_def Let_def floor_rat_numeral_div)
  show "fl32 (1 / 16383) = 16385 / 268435456"
    by (rule fl32_eqI[where e = "- 14" and m = 8389120]) (simp_all add: roundEven_def Let_def floor_rat_numeral_div)
  show "fl32 (1 / 32767) = 32769 / 1073741824"
    by (rule fl32_eqI[where e = "- 15" and m = 8388864]) (simp_all add: roundEven_def Let_def floor_rat_numeral_div)
  show "fl32 (1 / 65535) = 65537 / 4294967296"
    by (rule fl32_eqI[where e = "- 16" and m = 8388736]) (simp_all add: roundEven_def Let_def floor_rat_numeral_div)
qed

lemma unit_products:
  "fl32 (33554433 / 33554432) = 1"
  "fl32 (67108867 / 67108864) = 1"
  "fl32 (134217735 / 134217728) = 1"
  "fl32 (33554431 / 33554432) = 1"
  "fl32 (536870943 / 536870912) = 1"
  "fl32 (268435455 / 268435456) = 1"
  "fl32 (2147483775 / 2147483648) = 1"
  "fl32 (134217727 / 134217728) = 1"
  "fl32 (1073741823 / 1073741824) = 1"
  "fl32 (8589934591 / 8589934592) = 1"
  "fl32 (34359740415 / 34359738368) = 1"
  "fl32 (67108863 / 67108864) = 1"
  "fl32 (4294967295 / 4294967296) = 1"
proof -
  show "fl32 (33554433 / 33554432) = 1"
    by (rule fl32_eqI[where e = "0" and m = 8388608]) (simp_all add: roundEven_def Let_def floor_rat_numeral_div)
  show "fl32 (67108867 / 67108864) = 1"
    by (rule fl32_eqI[where e = "0" and m = 8388608]) (simp_all add: roundEven_def Let_def floor_rat_numeral_div)
  show "fl32 (134217735 / 134217728) = 1"
    by (rule fl32_eqI[where e = "0" and m = 8388608]) (simp_all add: roundEven_def Let_def floor_rat_numeral_div)
  show "fl32 (33554431 / 33554432) = 1"
    by (rule fl32_eqI[where e = "- 1" and m = 16777216]) (simp_all add: roundEven_def Let_def floor_rat_numeral_div)
  show "fl32 (536870943 / 536870912) = 1"
    by (rule fl32_eqI[where e = "0" and m = 8388608]) (simp_all add: roundEven_def Let_def floor_rat_numeral_div)
  show "fl32 (268435455 / 268435456) = 1"
    by (rule fl32_eqI[where e = "- 1" and m = 16777216]) (simp_all add: roundEven_def Let_def floor_rat_numeral_div)
  show "fl32 (2147483775 / 2147483648) = 1"
    by (rule fl32_eqI[where e = "0" and m = 8388608]) (simp_all add: roundEven_def Let_def floor_rat_numeral_div)
  show "fl32 (134217727 / 134217728) = 1"
    by (rule fl32_eqI[where e = "- 1" and m = 16777216]) (simp_all add: roundEven_def Let_def floor_rat_numeral_div)
  show "fl32 (1073741823 / 1073741824) = 1"
    by (rule fl32_eqI[where e = "- 1" and m = 16777216]) (simp_all add: roundEven_def Let_def floor_rat_numeral_div)
  show "fl32 (8589934591 / 8589934592) = 1"
    by (rule fl32_eqI[where e = "- 1" and m = 16777216]) (simp_all add: roundEven_def Let_def floor_rat_numeral_div)
  show "fl32 (34359740415 / 34359738368) = 1"
    by (rule fl32_eqI[where e = "0" and m = 8388608]) (simp_all add: roundEven_def Let_def floor_rat_numeral_div)
  show "fl32 (67108863 / 67108864) = 1"
    by (rule fl32_eqI[where e = "- 1" and m = 16777216]) (simp_all add: roundEven_def Let_def floor_rat_numeral_div)
  show "fl32 (4294967295 / 4294967296) = 1"
    by (rule fl32_eqI[where e = "- 1" and m = 16777216]) (simp_all add: roundEven_def Let_def floor_rat_numeral_div)
qed

lemma normalizeSample_max:
  assumes "1 \<le> B" "B \<le> 16" "uint v = 2 ^ nat B - 1"
  shows "normalizeSample (channelScale B) v = 1"
proof -
  from assms(1,2) have "B \<in> {1, 2, 3, 4, 5, 6, 7, 8, 9, 10, 11, 12, 13, 14, 15, 16}"
    by (simp add: numeral_eq_Suc) presburger
  then show ?thesis
    using assms(3)
    by (elim insertE emptyE)
      (simp_all add: normalizeSample_def channelScale_def fmul_def fdiv_def float_of_int_def
        fl32_numeral fl32_one reciprocal_values unit_products)
qed




subsection \<open>Outcomes and traces\<close>

lemma andThen_Inr:
  "andThen m f = (t, Inr y) \<longleftrightarrow>
   (\<exists>t1 x t2. m = (t1, Inr x) \<and> f x = (t2, Inr y) \<and> t = t1 @ t2)"
  by (auto simp add: andThen_def split: prod.splits sum.splits)

lemma getCmsTransform_quiet: "applyAppleGainMap_called n \<notin> set (fst (getCmsTransform E h k p))"
  by (simp add: getCmsTransform_def Let_def ret_def emit_def andThen_def
      split: sum.splits option.splits)

lemma decodeImage_quiet: "applyAppleGainMap_called n \<notin> set (fst (decodeImage E h ts p))"
proof -
  have g: "\<And>k p t r. getCmsTransform E h k p = (t, r) \<Longrightarrow> applyAppleGainMap_called n \<notin> set t"
    using getCmsTransform_quiet by (metis fst_conv)
  show ?thesis
    by (auto simp add: decodeImage_def Let_def throw_def ret_def emit_def andThen_def
        split: sum.splits option.splits prod.splits dest: g)
qed

lemma resizeImage_quiet: "applyAppleGainMap_called n \<notin> set (fst (resizeImage img ts p))"
  by (simp add: resizeImage_def Let_def throw_def ret_def emit_def andThen_def
      split: list.splits option.splits)

lemma findAppleMakerNote_blocks_quiet:
  "applyAppleGainMap_called n \<notin> set (fst (findAppleMakerNote_blocks E bs))"
  by (induction bs)
    (auto simp add: Let_def throw_def ret_def emit_def andThen_def
      split: sum.splits option.splits prod.splits)

lemma findAppleMakerNote_quiet:
  "applyAppleGainMap_called n \<notin> set (fst (findAppleMakerNote E P))"
  using findAppleMakerNote_blocks_quiet[of n E "exif_blocks P"]
  by (auto simp add: findAppleMakerNote_def Let_def ret_def emit_def andThen_def
      split: sum.splits prod.splits)

lemma decodeImage_quietD:
  "decodeImage E h ts p = (t, r) \<Longrightarrow> applyAppleGainMap_called n \<notin> set t"
  using decodeImage_quiet[of n E h ts p] by simp

lemma resizeImage_quietD:
  "resizeImage img ts p = (t, r) \<Longrightarrow> applyAppleGainMap_called n \<notin> set t"
  using resizeImage_quiet[of n img ts p] by simp

lemma findAppleMakerNote_quietD:
  "findAppleMakerNote E P = (t, r) \<Longrightarrow> applyAppleGainMap_called n \<notin> set t"
  using findAppleMakerNote_quiet[of n E P] by simp

lemmas quietD = decodeImage_quietD resizeImage_quietD findAppleMakerNote_quietD

lemma loadAuxiliary_fusion:
  assumes "loadAuxiliary E P sel num mainImage aux = (evs, Inr mainImage')"
  shows "applyAppleGainMap_called n \<in> set evs \<longleftrightarrow>
           layerNameOf num aux = Some n \<and> matchesFuzzy E n sel
           \<and> find_str n ''apple'' \<and> find_str n ''hdrgainmap''
           \<and> (\<exists>note. snd (findAppleMakerNote E P) = Inr (Some note))"
  using assms
  by (auto simp add: loadAuxiliary_def layerNameOf_def Let_def andThen_Inr ret_def emit_def
      frontSize_def throw_def
      split: sum.splits if_splits option.splits list.splits dest: quietD)

lemma loadAuxiliary_channels:
  assumes "loadAuxiliary E P sel num mainImage aux = (evs, Inr mainImage')"
    and "\<forall>n. applyAppleGainMap_called n \<notin> set evs"
  shows "mainImage' = mainImage\<lparr>channels := channels mainImage
           @ auxChannels E (frontSizeOr mainImage) sel num aux\<rparr>
         \<and> frontSizeOr mainImage' = frontSizeOr mainImage"
  using assms
  by (auto simp add: loadAuxiliary_def layerNameOf_def auxChannels_def frontSizeOr_def Let_def
      andThen_Inr ret_def emit_def frontSize_def throw_def andThen_def
      split: sum.splits if_splits option.splits list.splits prod.splits)

lemma loadAuxiliaries_fusion:
  assumes "loadAuxiliaries E P sel num mainImage auxes = (evs, Inr mainImage')"
  shows "applyAppleGainMap_called n \<in> set evs \<longleftrightarrow>
           (\<exists>aux \<in> set auxes. layerNameOf num aux = Some n) \<and> matchesFuzzy E n sel
           \<and> find_str n ''apple'' \<and> find_str n ''hdrgainmap''
           \<and> (\<exists>note. snd (findAppleMakerNote E P) = Inr (Some note))"
  using assms
proof (induction auxes arbitrary: mainImage evs)
  case Nil
  then show ?case by (simp add: ret_def)
next
  case (Cons aux rest)
  from Cons.prems obtain t1 m1 t2 where
    step: "loadAuxiliary E P sel num mainImage aux = (t1, Inr m1)" and
    loop: "loadAuxiliaries E P sel num m1 rest = (t2, Inr mainImage')" and
    evs: "evs = t1 @ t2"
    by (auto simp add: andThen_Inr)
  show ?case
    using loadAuxiliary_fusion[OF step, of n] Cons.IH[OF loop] evs by auto
qed

lemma loadAuxiliaries_channels:
  assumes "loadAuxiliaries E P sel num mainImage auxes = (evs, Inr mainImage')"
    and "\<forall>n. applyAppleGainMap_called n \<notin> set evs"
  shows "mainImage' = mainImage\<lparr>channels := channels mainImage
           @ concat (map (auxChannels E (frontSizeOr mainImage) sel num) auxes)\<rparr>"
  using assms
proof (induction auxes arbitrary: mainImage evs)
  case Nil
  then show ?case by (simp add: ret_def)
next
  case (Cons aux rest)
  from Cons.prems(1) obtain t1 m1 t2 where
    step: "loadAuxiliary E P sel num mainImage aux = (t1, Inr m1)" and
    loop: "loadAuxiliaries E P sel num m1 rest = (t2, Inr mainImage')" and
    evs: "evs = t1 @ t2"
    by (auto simp add: andThen_Inr)
  have q1: "\<forall>n. applyAppleGainMap_called n \<notin> set t1" and q2: "\<forall>n. applyAppleGainMap_called n \<notin> set t2"
    using Cons.prems(2) evs by auto
  from loadAuxiliary_channels[OF step q1] have
    m1: "m1 = mainImage\<lparr>channels := channels mainImage
           @ auxChannels E (frontSizeOr mainImage) sel num aux\<rparr>" and
    fs: "frontSizeOr m1 = frontSizeOr mainImage"
    by blast+
  have "mainImage' = m1\<lparr>channels := channels m1
           @ concat (map (auxChannels E (frontSizeOr mainImage) sel num) rest)\<rparr>"
    using Cons.IH[OF loop q2] by (simp only: fs)
  then show ?case by (simp add: m1)
qed

subsection \<open>Evaluation at the concrete inputs\<close>

lemma fl32_values:
  "fl32 2 = 2" "fl32 4 = 4" "fl32 (1 / 2) = 1 / 2" "fl32 (1 / 4) = 1 / 4" "fl32 (3 / 4) = 3 / 4"
  "fl32 (5 / 4) = 5 / 4" "fl32 (7 / 4) = 7 / 4" "fl32 (3 / 2) = 3 / 2" "fl32 (5 / 2) = 5 / 2"
  "fl32 (7 / 2) = 7 / 2" "fl32 (- (1 / 4)) = - (1 / 4)" "fl32 3 = 3" "fl32 1 = 1" "fl32 0 = 0"
  "fl32 (- (1 / 2)) = - (1 / 2)" "fl32 (- (1 / 16)) = - (1 / 16)" "fl32 (3 / 16) = 3 / 16"
  "fl32 (9 / 16) = 9 / 16" "fl32 (15 / 16) = 15 / 16" "fl32 (5 / 16) = 5 / 16" "fl32 (1 / 16) = 1 / 16"
  using fl32_representable[of 2 0] fl32_representable[of 4 0] fl32_representable[of 1 "- 1"]
    fl32_representable[of 1 "- 2"] fl32_representable[of 3 "- 2"] fl32_representable[of 5 "- 2"]
    fl32_representable[of 7 "- 2"] fl32_representable[of 3 "- 1"] fl32_representable[of 5 "- 1"]
    fl32_representable[of 7 "- 1"] fl32_representable[of "- 1" "- 2"] fl32_representable[of 3 0]
    fl32_representable[of 1 0] fl32_representable[of 0 0] fl32_representable[of "- 1" "- 1"]
    fl32_representable[of "- 1" "- 4"] fl32_representable[of 3 "- 4"] fl32_representable[of 9 "- 4"]
    fl32_representable[of 15 "- 4"] fl32_representable[of 5 "- 4"] fl32_representable[of 1 "- 4"]
  by simp_all

lemma floor_values:
  "\<lfloor>(1::rat) / 4\<rfloor> = 0" "\<lfloor>- ((1::rat) / 4)\<rfloor> = - 1" "\<lfloor>(3::rat) / 4\<rfloor> = 0" "\<lfloor>(5::rat) / 4\<rfloor> = 1"
  by (simp_all add: floor_eq_iff)

lemma sourceCoordinate_ramp:
  "sourceCoordinate 2 4 0 = - (1 / 4)" "sourceCoordinate 2 4 1 = 1 / 4"
  "sourceCoordinate 2 4 2 = 3 / 4" "sourceCoordinate 2 4 3 = 5 / 4"
  "sourceCoordinate 1 1 0 = 0"
  by (simp_all add: sourceCoordinate_def fdiv_def fsub_def fmul_def fadd_def float_of_int_def fl32_values)

lemma interpolate_ramp:
  "interpolate rampChannel (2, 1) (4, 1) 0 0 = Some (- (1 / 4))"
  "interpolate rampChannel (2, 1) (4, 1) 1 0 = Some (1 / 4)"
  "interpolate rampChannel (2, 1) (4, 1) 2 0 = Some (3 / 4)"
  "interpolate rampChannel (2, 1) (4, 1) 3 0 = Some 1"
  by (simp_all add: interpolate_def sourceCoordinate_ramp floor_values rampChannel_def at_index_def Let_def
      fsub_def fmul_def fadd_def float_of_int_def fl32_values)

lemma upt_4: "[0..<4] = [0, 1, 2, 3]"
  by code_simp

lemma resampleChannel_ramp: "resampleChannel rampChannel (2, 1) (4, 1) = Some [- (1 / 4), 1 / 4, 3 / 4, 1]"
  by (simp add: resampleChannel_def interpolate_ramp upt_4)

lemma rampChannel_size: "chanSize rampChannel = (2, 1)"
  by (simp add: rampChannel_def)

lemma to_string_small: "to_string (Suc 0) = ''1''" "to_string (Suc (Suc 0)) = ''2''"
  by code_simp+

lemma upt_3: "[0..<3] = [0, 1, 2]"
  by code_simp

lemma white_sample: "normalizeSample (channelScale 8) 255 = 1"
  by (rule normalizeSample_max) simp_all

lemma decodeImage_pixelHandle:
  "decodeImage substringEnv pixelHandle targetSize namePrefix =
     ([heif_decode_image_called, plane_readonly_called, channels_allocated 3 (1, 1) namePrefix],
      Inr (whitePixel namePrefix))"
  by (simp add: decodeImage_def pixelHandle_def whitePlane_def noProfile_def substringEnv_def
      whitePixel_def getCmsTransform_def nclxChannelData_def makeNChannels_def channelSuffix_def
      fill_def emptyImageData_def white_sample upt_3
      andThen_def emit_def ret_def throw_def Let_def)

lemma resizeImage_whitePixel:
  "resizeImage (whitePixel namePrefix) (1, 1) namePrefix' = ([], Inr (whitePixel namePrefix))"
  by (simp add: resizeImage_def whitePixel_def ret_def Let_def)

lemma frontSize_whitePixel: "frontSize (whitePixel namePrefix) = ([], Inr (1, 1))"
  by (simp add: frontSize_def whitePixel_def ret_def)

lemma gainMap_name:
  "auxLayerName num_aux (Some ''urn:com:apple:photo:2020:aux:hdrgainmap'') =
     ''urn.com.apple.photo.2020.aux.hdrgainmap.''"
  by (simp add: auxLayerName_def)

lemma gainMap_name_markers:
  "find_str ''urn.com.apple.photo.2020.aux.hdrgainmap.'' ''apple''"
  "find_str ''urn.com.apple.photo.2020.aux.hdrgainmap.'' ''hdrgainmap''"
  "\<not> find_str ''urn.com.apple.photo.2020.aux.hdrgainmap.'' ''depth''"
  "find_str ''urn.com.apple.photo.2020.aux.hdrgainmap.'' []"
  by simp_all

lemma findAppleMakerNote_found:
  "findAppleMakerNote substringEnv \<lparr>handle = h, exif_blocks = [exifWithMakerNote], auxiliary_images = auxes\<rparr> =
     ([], Inr (Some (AppleMakerNote [1, 2] 2)))"
  by (simp add: findAppleMakerNote_def exifWithMakerNote_def substringEnv_def
      andThen_def emit_def ret_def throw_def Let_def)

lemma findAppleMakerNote_null:
  "findAppleMakerNote substringEnv \<lparr>handle = h, exif_blocks = [exifWithoutMakerNote], auxiliary_images = auxes\<rparr> =
     ([], Inl null_pointer_dereference)"
  by (simp add: findAppleMakerNote_def exifWithoutMakerNote_def substringEnv_def
      andThen_def emit_def ret_def throw_def Let_def)

lemma matchesFuzzy_substringEnv: "matchesFuzzy substringEnv = find_str"
  by (simp add: substringEnv_def matchesFuzzy_substring_def fun_eq_iff)

lemma applyAppleGainMap_substringEnv: "applyAppleGainMap substringEnv m a n = m"
  by (simp add: substringEnv_def)

lemma load_gainMap_fused:
  "load substringEnv (heifFile [exifWithMakerNote] [Inr gainMapAux]) [] =
     ([heif_decode_image_called, plane_readonly_called, channels_allocated 3 (1, 1) [],
       debug ''Found 1 auxiliary image(s)'',
       heif_decode_image_called, plane_readonly_called,
       channels_allocated 3 (1, 1) ''urn.com.apple.photo.2020.aux.hdrgainmap.'',
       debug ''Found hdrgainmap: urn.com.apple.photo.2020.aux.hdrgainmap.'',
       debug ''Found Apple maker note; applying gain map.'',
       applyAppleGainMap_called ''urn.com.apple.photo.2020.aux.hdrgainmap.''],
      Inr [(whitePixel [])\<lparr>channels := channels (whitePixel [])
             @ channels (whitePixel ''urn.com.apple.photo.2020.aux.hdrgainmap.'')\<rparr>])"
  by (simp add: load_def heifFile_def loadAuxiliary_def gainMapAux_def decodeImage_pixelHandle
      frontSize_whitePixel gainMap_name gainMap_name_markers findAppleMakerNote_found
      matchesFuzzy_substringEnv applyAppleGainMap_substringEnv resizeImage_whitePixel
      to_string_small andThen_def emit_def ret_def throw_def Let_def)

lemma load_gainMap_unselected:
  "load substringEnv (heifFile [exifWithMakerNote] [Inr gainMapAux]) ''depth'' =
     ([heif_decode_image_called, plane_readonly_called, channels_allocated 3 (1, 1) [],
       debug ''Found 1 auxiliary image(s)''],
      Inr [whitePixel []])"
  by (simp add: load_def heifFile_def loadAuxiliary_def gainMapAux_def decodeImage_pixelHandle
      gainMap_name gainMap_name_markers matchesFuzzy_substringEnv to_string_small
      andThen_def emit_def ret_def throw_def Let_def)

lemma decodeImage_icc_pixel:
  "decodeImage substringEnv premultipliedIccHandle targetSize namePrefix =
     ([heif_decode_image_called, plane_readonly_called, channels_allocated 4 (1, 1) namePrefix,
       debug ''Found ICC color profile.'', scratch_allocated 4, scratch_allocated 4],
      Inr (transformedPixel namePrefix))"
  by (simp add: decodeImage_def premultipliedIccHandle_def pixelHandle_def whitePlane_def
      substringEnv_def getCmsTransform_def iccChannelData_def makeNChannels_def channelSuffix_def
      fill_def emptyImageData_def transformedPixel_def upt_4
      andThen_def emit_def ret_def throw_def Let_def)

lemma decodeImage_corruptAux:
  "decodeImage substringEnv (aux_handle corruptAux) targetSize namePrefix =
     ([heif_decode_image_called], Inl (invalid_argument ''Failed to decode image: corrupt''))"
  by (simp add: decodeImage_def corruptAux_def pixelHandle_def
      andThen_def emit_def throw_def Let_def)

lemma corruptAux_name:
  "auxiliary_type corruptAux = Inr (Some ''depth'')" "auxLayerName num_aux (Some ''depth'') = ''depth.''"
  by (simp_all add: corruptAux_def auxLayerName_def)

lemma takesIccPath_icc_pixel: "takesIccPath substringEnv premultipliedIccHandle"
  by (simp add: takesIccPath_def premultipliedIccHandle_def pixelHandle_def substringEnv_def
      getCmsTransform_def ret_def Let_def)

subsection \<open>The matrix of the NCLX path\<close>

text \<open>
  When no ICC transform is obtained, the matrix attached to the image is decided by
  the colour-primaries code of the NCLX profile alone: the identity when there is
  no profile or the code is that of BT.709, and otherwise the product that OpenEXR
  computes from the embedded chromaticities, whatever their values.
\<close>

lemma getCmsTransform_returns: "\<exists>t r. getCmsTransform E h n p = (t, Inr r)"
  by (simp add: getCmsTransform_def Let_def ret_def emit_def andThen_def
      split: sum.splits option.splits)

lemma nclx_path_matrix:
  assumes "\<not> takesIccPath E imgHandle"
    and "snd (decodeImage E imgHandle targetSize namePrefix) = Inr img"
  shows "toRec709 img =
     (case nclx_color_profile imgHandle of
        Inl _ \<Rightarrow> identityM44
      | Inr nclx \<Rightarrow>
          if color_primaries nclx = heif_color_primaries_ITU_R_BT_709_5 then identityM44
          else (\<lambda>m n. if m < 4 \<and> n < 4
                 then M44f_times E (RGBtoXYZ E (nclxChromaticities nclx) 1)
                        (XYZtoRGB E (default_Chromaticities E) 1) m n
                 else identityM44 m n))"
proof -
  obtain t r where t:
    "getCmsTransform E imgHandle (if has_alpha_channel imgHandle then 4 else 3)
       (has_alpha_channel imgHandle \<and> is_premultiplied_alpha imgHandle) = (t, r)"
    by (cases "getCmsTransform E imgHandle (if has_alpha_channel imgHandle then 4 else 3)
                 (has_alpha_channel imgHandle \<and> is_premultiplied_alpha imgHandle)")
  moreover from getCmsTransform_returns[of E imgHandle "if has_alpha_channel imgHandle then 4 else 3"
      "has_alpha_channel imgHandle \<and> is_premultiplied_alpha imgHandle"] t
  obtain r' where "r = Inr r'" by auto
  ultimately have r: "r = Inr None"
    using assms(1)
    by (auto simp add: takesIccPath_def Let_def split: sum.splits option.splits if_splits)
  show ?thesis
    using assms(2) t r
    by (auto simp add: decodeImage_def Let_def throw_def ret_def emit_def andThen_def
        emptyImageData_def fun_eq_iff
        split: if_splits sum.splits option.splits prod.splits)
qed

subsection \<open>The claims\<close>

text \<open>
  C1 (as amended). For every load that returns an image: gain-map fusion is invoked
  under a layer name n if and only if some auxiliary image whose handle and type
  were obtained has the normalised name n, n matches the channel selector, n
  contains both "apple" and "hdrgainmap", and findAppleMakerNote extracts a maker
  note from the EXIF blocks of the primary image. When no fusion is invoked, the
  image returned is the decoded primary image followed by the channels of exactly
  those auxiliary images whose names match the selector, in their order; an image
  whose name does not match contributes nothing.
\<close>

theorem fusion_invoked_iff:
  assumes "load E ctx sel = (evs, Inr result)"
  shows "\<exists>P mainImage.
           primary_image_handle ctx = Inr P
           \<and> snd (decodeImage E (handle P) (0, 0) []) = Inr mainImage
           \<and> (\<forall>n. applyAppleGainMap_called n \<in> set evs \<longleftrightarrow>
                  (\<exists>aux \<in> set (auxiliary_images P).
                     layerNameOf (length (auxiliary_images P)) aux = Some n)
                  \<and> matchesFuzzy E n sel \<and> find_str n ''apple'' \<and> find_str n ''hdrgainmap''
                  \<and> (\<exists>note. snd (findAppleMakerNote E P) = Inr (Some note)))
           \<and> ((\<forall>n. applyAppleGainMap_called n \<notin> set evs) \<longrightarrow>
                  result = [mainImage\<lparr>channels := channels mainImage
                     @ concat (map (auxChannels E (frontSizeOr mainImage) sel
                                      (length (auxiliary_images P)))
                                 (auxiliary_images P))\<rparr>])"
proof -
  from assms obtain P where P: "primary_image_handle ctx = Inr P"
    by (auto simp add: load_def throw_def split: if_splits option.splits sum.splits)
  show ?thesis
  proof (cases "auxiliary_images P = []")
    case True
    with assms P obtain mainImage where
      dec: "decodeImage E (handle P) (0, 0) [] = (evs, Inr mainImage)" and res: "result = [mainImage]"
      by (auto simp add: load_def throw_def Let_def andThen_Inr ret_def
          split: if_splits option.splits sum.splits)
    have "\<And>n. applyAppleGainMap_called n \<notin> set evs"
      using dec by (rule decodeImage_quietD)
    with P dec res True show ?thesis by simp
  next
    case False
    with assms P obtain t0 mainImage t2 m1 where
      dec: "decodeImage E (handle P) (0, 0) [] = (t0, Inr mainImage)" and
      loop: "loadAuxiliaries E P sel (length (auxiliary_images P)) mainImage (auxiliary_images P)
               = (t2, Inr m1)" and
      res: "result = [m1]" and
      evs: "evs = t0 @ debug (''Found '' @ to_string (length (auxiliary_images P))
                                @ '' auxiliary image(s)'') # t2"
      by (auto simp add: load_def throw_def Let_def andThen_Inr ret_def emit_def
          split: if_splits option.splits sum.splits)
    have q0: "\<And>n. applyAppleGainMap_called n \<notin> set t0"
      using dec by (rule decodeImage_quietD)
    have a: "\<And>n. applyAppleGainMap_called n \<in> set evs \<longleftrightarrow> applyAppleGainMap_called n \<in> set t2"
      using evs q0 by auto
    have "result = [mainImage\<lparr>channels := channels mainImage
                     @ concat (map (auxChannels E (frontSizeOr mainImage) sel
                                      (length (auxiliary_images P)))
                                 (auxiliary_images P))\<rparr>]"
      if "\<forall>n. applyAppleGainMap_called n \<notin> set evs"
      using loadAuxiliaries_channels[OF loop] that a res by simp
    then show ?thesis
      using P dec a loadAuxiliaries_fusion[OF loop] by auto
  qed
qed

theorem fusion_invoked_iff_witness:
  "load substringEnv (heifFile [exifWithMakerNote] [Inr gainMapAux]) [] =
     ([heif_decode_image_called, plane_readonly_called, channels_allocated 3 (1, 1) [],
       debug ''Found 1 auxiliary image(s)'',
       heif_decode_image_called, plane_readonly_called,
       channels_allocated 3 (1, 1) ''urn.com.apple.photo.2020.aux.hdrgainmap.'',
       debug ''Found hdrgainmap: urn.com.apple.photo.2020.aux.hdrgainmap.'',
       debug ''Found Apple maker note; applying gain map.'',
       applyAppleGainMap_called ''urn.com.apple.photo.2020.aux.hdrgainmap.''],
      Inr [(whitePixel [])\<lparr>channels := channels (whitePixel [])
             @ channels (whitePixel ''urn.com.apple.photo.2020.aux.hdrgainmap.'')\<rparr>])
   \<and> matchesFuzzy substringEnv ''urn.com.apple.photo.2020.aux.hdrgainmap.'' []
   \<and> (\<exists>note. snd (findAppleMakerNote substringEnv
          \<lparr>handle = pixelHandle, exif_blocks = [exifWithMakerNote],
           auxiliary_images = [Inr gainMapAux]\<rparr>) = Inr (Some note))"
  using fusion_invoked_iff[OF load_gainMap_fused] load_gainMap_fused
  by (auto simp add: heifFile_def)

text \<open>
  As stated, without the selector, C1 fails: with the selector "depth", an
  auxiliary image named urn.com.apple.photo.2020.aux.hdrgainmap. and a maker note
  that findAppleMakerNote extracts, the load returns the three channels of the
  primary image alone: the gain map is neither appended nor fused.
\<close>

theorem fusion_skipped_for_unselected_gain_map:
  "layerNameOf 1 (Inr gainMapAux) = Some ''urn.com.apple.photo.2020.aux.hdrgainmap.''
   \<and> find_str ''urn.com.apple.photo.2020.aux.hdrgainmap.'' ''apple''
   \<and> find_str ''urn.com.apple.photo.2020.aux.hdrgainmap.'' ''hdrgainmap''
   \<and> findAppleMakerNote substringEnv
         \<lparr>handle = pixelHandle, exif_blocks = [exifWithMakerNote],
          auxiliary_images = [Inr gainMapAux]\<rparr> = ([], Inr (Some (AppleMakerNote [1, 2] 2)))
   \<and> load substringEnv (heifFile [exifWithMakerNote] [Inr gainMapAux]) ''depth'' =
       ([heif_decode_image_called, plane_readonly_called, channels_allocated 3 (1, 1) [],
         debug ''Found 1 auxiliary image(s)''],
        Inr [whitePixel []])
   \<and> length (channels (whitePixel [])) = 3"
proof -
  have "layerNameOf 1 (Inr gainMapAux) = Some ''urn.com.apple.photo.2020.aux.hdrgainmap.''"
    by (simp add: layerNameOf_def gainMapAux_def gainMap_name)
  moreover have "length (channels (whitePixel [])) = 3"
    by (simp add: whitePixel_def)
  ultimately show ?thesis
    by (simp only: load_gainMap_unselected findAppleMakerNote_found gainMap_name_markers simp_thms)
qed

text \<open>
  C3. Resampling the one-row image with the two samples 0 and 1 to four columns:
  the source coordinate of destination column 0 is \<open>(0 + 0.5) * 0.5 - 0.5 = -0.25\<close>
  and is not clamped, the weights of the two neighbours are 1.25 and -0.25, and the
  output sample is -0.25, outside the range of the source samples. At the right
  edge, column 3, both neighbour indices are clamped to the last sample and the
  output is 1.
\<close>

theorem resizeImage_extrapolates_at_left_edge:
  "sourceCoordinate 2 4 0 = - (1 / 4)
   \<and> resizeImage rampImage (4, 1) ''gain.'' =
       ([channels_allocated 1 (4, 1) ''gain.''],
        Inr (emptyImageData\<lparr>channels :=
          [\<lparr>name = ''gain.L'', chanSize = (4, 1), data = [- (1 / 4), 1 / 4, 3 / 4, 1]\<rparr>]\<rparr>))"
  by (simp add: sourceCoordinate_ramp resizeImage_def rampImage_def resampleChannel_ramp
      rampChannel_size emptyImageData_def makeNChannels_def channelSuffix_def fill_def
      andThen_def emit_def ret_def Let_def)

text \<open>
  C4. Whenever decodeImage obtains a transform from the embedded ICC profile and
  returns an image, that image is not flagged as premultiplied, whatever the
  container said about the alpha channel.
\<close>

theorem icc_path_clears_premultiplied:
  assumes "takesIccPath E imgHandle"
    and "snd (decodeImage E imgHandle targetSize namePrefix) = Inr img"
  shows "\<not> hasPremultipliedAlpha img"
proof -
  obtain t transform where t:
    "getCmsTransform E imgHandle (if has_alpha_channel imgHandle then 4 else 3)
       (has_alpha_channel imgHandle \<and> is_premultiplied_alpha imgHandle) = (t, Inr (Some transform))"
    using assms(1)
    by (cases "getCmsTransform E imgHandle (if has_alpha_channel imgHandle then 4 else 3)
                 (has_alpha_channel imgHandle \<and> is_premultiplied_alpha imgHandle)")
      (auto simp add: takesIccPath_def Let_def split: sum.splits option.splits if_splits)
  show ?thesis
    using assms(2) t
    by (auto simp add: decodeImage_def Let_def throw_def ret_def emit_def andThen_def
        split: if_splits sum.splits option.splits prod.splits)
qed

theorem icc_path_clears_premultiplied_witness:
  "takesIccPath substringEnv premultipliedIccHandle
   \<and> has_alpha_channel premultipliedIccHandle \<and> is_premultiplied_alpha premultipliedIccHandle
   \<and> snd (decodeImage substringEnv premultipliedIccHandle (0, 0) []) = Inr (transformedPixel [])
   \<and> \<not> hasPremultipliedAlpha (transformedPixel [])"
proof -
  have d: "snd (decodeImage substringEnv premultipliedIccHandle (0, 0) []) = Inr (transformedPixel [])"
    by (simp add: decodeImage_icc_pixel)
  from icc_path_clears_premultiplied[OF takesIccPath_icc_pixel d] takesIccPath_icc_pixel d
  show ?thesis by (simp add: premultipliedIccHandle_def)
qed

text \<open>
  C5. A file whose first auxiliary image (a depth layer matching the selector)
  cannot be decoded, followed by a sound gain map: the exception of decodeImage
  leaves the loop and load, so the load fails and the primary image, decoded
  before, is not returned.
\<close>

theorem load_fails_on_undecodable_auxiliary:
  "load substringEnv (heifFile [exifWithMakerNote] [Inr corruptAux, Inr gainMapAux]) [] =
     ([heif_decode_image_called, plane_readonly_called, channels_allocated 3 (1, 1) [],
       debug ''Found 2 auxiliary image(s)'',
       heif_decode_image_called],
      Inl (invalid_argument ''Failed to decode image: corrupt''))"
  by (simp add: load_def heifFile_def loadAuxiliary_def decodeImage_pixelHandle
      decodeImage_corruptAux corruptAux_name frontSize_whitePixel matchesFuzzy_substringEnv
      to_string_small andThen_def emit_def ret_def throw_def Let_def)

text \<open>
  C6. A file with an Apple gain map whose only EXIF block decodes but holds no
  maker-note entry: findAppleMakerNote reads through the null entry, and the load
  ends there instead of returning the image with the gain map left unfused.
\<close>

theorem load_dereferences_missing_maker_note:
  "load substringEnv (heifFile [exifWithoutMakerNote] [Inr gainMapAux]) [] =
     ([heif_decode_image_called, plane_readonly_called, channels_allocated 3 (1, 1) [],
       debug ''Found 1 auxiliary image(s)'',
       heif_decode_image_called, plane_readonly_called,
       channels_allocated 3 (1, 1) ''urn.com.apple.photo.2020.aux.hdrgainmap.'',
       debug ''Found hdrgainmap: urn.com.apple.photo.2020.aux.hdrgainmap.''],
      Inl null_pointer_dereference)"
  by (simp add: load_def heifFile_def loadAuxiliary_def gainMapAux_def decodeImage_pixelHandle
      frontSize_whitePixel gainMap_name gainMap_name_markers findAppleMakerNote_null
      matchesFuzzy_substringEnv resizeImage_whitePixel to_string_small
      andThen_def emit_def ret_def throw_def Let_def)

text \<open>
  C7. For every image handle of width 0 or height 0, decodeImage throws "Image has
  zero pixels." with an empty trace: before heif_decode_image is called, before
  the plane is read and before any channel or scratch buffer is allocated.
\<close>

theorem zero_area_rejected_first:
  "width imgHandle = 0 \<or> height imgHandle = 0 \<Longrightarrow>
   decodeImage E imgHandle targetSize namePrefix =
     ([], Inl (invalid_argument ''Image has zero pixels.''))"
  by (auto simp add: decodeImage_def throw_def Let_def)

theorem zero_area_rejected_first_witness:
  "(width (pixelHandle\<lparr>width := 0\<rparr>) = 0 \<or> height (pixelHandle\<lparr>width := 0\<rparr>) = 0)
   \<and> decodeImage substringEnv (pixelHandle\<lparr>width := 0\<rparr>) (0, 0) [] =
       ([], Inl (invalid_argument ''Image has zero pixels.''))"
  using zero_area_rejected_first[of "pixelHandle\<lparr>width := 0\<rparr>" substringEnv "(0, 0)" "[]"]
  by simp

text \<open>
  C9. For every image whose first channel already has the target size, resizeImage
  returns the image itself, every channel buffer as it was, and its trace is
  empty: no channels are allocated.
\<close>

theorem resize_to_own_size_is_identity:
  "channels img = front # rest \<Longrightarrow> chanSize front = targetSize \<Longrightarrow>
   resizeImage img targetSize namePrefix = ([], Inr img)"
  by (simp add: resizeImage_def ret_def)

theorem resize_to_own_size_is_identity_witness:
  "channels rampImage = rampChannel # [] \<and> chanSize rampChannel = (2, 1)
   \<and> resizeImage rampImage (2, 1) ''gain.'' = ([], Inr rampImage)"
  using resize_to_own_size_is_identity[of rampImage rampChannel "[]" "(2, 1)" "''gain.''"]
  by (simp add: rampImage_def rampChannel_def)

text \<open>
  C10. For every input stream, canLoadFile returns with the stream's error flags
  cleared and its read position at offset 0, whether the header was readable (file
  type recognised or not) or fewer than 12 bytes could be read; the bytes of the
  stream are untouched.
\<close>

theorem canLoadFile_restores_stream:
  "good (snd (canLoadFile chk s)) \<and> pos (snd (canLoadFile chk s)) = 0
   \<and> content (snd (canLoadFile chk s)) = content s"
  by (simp add: canLoadFile_def read_def clear_def seekg_def fail_def good_def Let_def
      split: prod.splits)

end
